theory Spec2Isabelle
  imports Complex_Main
begin

section \<open>JavaScript numbers\<close>

text \<open>
  A JavaScript \<^verbatim>\<open>number\<close> is a real number, one of the two infinities, or
  not-a-number. The arithmetic below follows IEEE 754 on the special values
  (\<^verbatim>\<open>Infinity - Infinity\<close>, \<^verbatim>\<open>0 * Infinity\<close>, \<^verbatim>\<open>0 / 0\<close> and
  \<^verbatim>\<open>Infinity / Infinity\<close> are \<^verbatim>\<open>NaN\<close>; a non-zero number divided by zero is an
  infinity; every comparison with \<^verbatim>\<open>NaN\<close> is false). Finite results are exact reals:
  binary rounding, overflow to infinity and the sign of zero are not represented
  (a zero divisor is taken as \<^verbatim>\<open>+0\<close>).
\<close>

datatype number = Num real | PosInfinity | NegInfinity | NaN

fun num_neg :: "number \<Rightarrow> number" where
  "num_neg (Num a) = Num (- a)"
| "num_neg PosInfinity = NegInfinity"
| "num_neg NegInfinity = PosInfinity"
| "num_neg NaN = NaN"

fun num_add :: "number \<Rightarrow> number \<Rightarrow> number" where
  "num_add (Num a) (Num b) = Num (a + b)"
| "num_add NaN _ = NaN"
| "num_add _ NaN = NaN"
| "num_add PosInfinity NegInfinity = NaN"
| "num_add NegInfinity PosInfinity = NaN"
| "num_add PosInfinity _ = PosInfinity"
| "num_add NegInfinity _ = NegInfinity"
| "num_add _ PosInfinity = PosInfinity"
| "num_add _ NegInfinity = NegInfinity"

definition num_sub :: "number \<Rightarrow> number \<Rightarrow> number" where
  "num_sub x y = num_add x (num_neg y)"

definition signed_inf :: "bool \<Rightarrow> number" where
  "signed_inf negative = (if negative then NegInfinity else PosInfinity)"

fun num_mul :: "number \<Rightarrow> number \<Rightarrow> number" where
  "num_mul (Num a) (Num b) = Num (a * b)"
| "num_mul NaN _ = NaN"
| "num_mul _ NaN = NaN"
| "num_mul (Num a) PosInfinity = (if a = 0 then NaN else signed_inf (a < 0))"
| "num_mul (Num a) NegInfinity = (if a = 0 then NaN else signed_inf (0 < a))"
| "num_mul PosInfinity (Num b) = (if b = 0 then NaN else signed_inf (b < 0))"
| "num_mul NegInfinity (Num b) = (if b = 0 then NaN else signed_inf (0 < b))"
| "num_mul PosInfinity PosInfinity = PosInfinity"
| "num_mul NegInfinity NegInfinity = PosInfinity"
| "num_mul PosInfinity NegInfinity = NegInfinity"
| "num_mul NegInfinity PosInfinity = NegInfinity"

fun num_div :: "number \<Rightarrow> number \<Rightarrow> number" where
  "num_div (Num a) (Num b) =
     (if b = 0 then (if a = 0 then NaN else signed_inf (a < 0)) else Num (a / b))"
| "num_div NaN _ = NaN"
| "num_div _ NaN = NaN"
| "num_div (Num a) _ = Num 0"
| "num_div PosInfinity (Num b) = signed_inf (b < 0)"
| "num_div NegInfinity (Num b) = signed_inf (\<not> b < 0)"
| "num_div _ _ = NaN"

fun num_lt :: "number \<Rightarrow> number \<Rightarrow> bool" where
  "num_lt (Num a) (Num b) = (a < b)"
| "num_lt NaN _ = False"
| "num_lt _ NaN = False"
| "num_lt NegInfinity NegInfinity = False"
| "num_lt NegInfinity _ = True"
| "num_lt PosInfinity _ = False"
| "num_lt (Num a) PosInfinity = True"
| "num_lt (Num a) NegInfinity = False"

fun isNaN :: "number \<Rightarrow> bool" where
  "isNaN NaN = True"
| "isNaN _ = False"

fun Math_exp :: "number \<Rightarrow> number" where
  "Math_exp (Num a) = Num (exp a)"
| "Math_exp PosInfinity = PosInfinity"
| "Math_exp NegInfinity = Num 0"
| "Math_exp NaN = NaN"

section \<open>Arbitrary-precision decimals (bignumber.js)\<close>

text \<open>
  A \<^verbatim>\<open>BigNumber\<close> is an exact decimal, an infinity or \<^verbatim>\<open>NaN\<close>; the special
  values combine as they do for numbers. \<^verbatim>\<open>plus\<close>, \<^verbatim>\<open>minus\<close>, \<^verbatim>\<open>times\<close> and
  \<^verbatim>\<open>negated\<close> are exact. \<^verbatim>\<open>div\<close> rounds the quotient to \<^verbatim>\<open>DECIMAL_PLACES\<close>
  decimal places, halves away from zero (the library's default configuration, which the
  program never changes). The constructor and \<^verbatim>\<open>toNumber\<close> keep the value.
\<close>

type_synonym BigNumber = number

definition BigNumber :: "number \<Rightarrow> BigNumber" where
  [simp]: "BigNumber n = n"

definition toNumber :: "BigNumber \<Rightarrow> number" where
  [simp]: "toNumber b = b"

definition DECIMAL_PLACES :: nat where
  "DECIMAL_PLACES = 20"

definition round_half_up :: "real \<Rightarrow> real" where
  "round_half_up q =
     (if 0 \<le> q then of_int \<lfloor>q * 10 ^ DECIMAL_PLACES + 1 / 2\<rfloor> / 10 ^ DECIMAL_PLACES
      else - (of_int \<lfloor>- q * 10 ^ DECIMAL_PLACES + 1 / 2\<rfloor> / 10 ^ DECIMAL_PLACES))"

definition bn_plus :: "BigNumber \<Rightarrow> BigNumber \<Rightarrow> BigNumber" where
  "bn_plus x y = num_add x y"

definition bn_minus :: "BigNumber \<Rightarrow> BigNumber \<Rightarrow> BigNumber" where
  "bn_minus x y = num_sub x y"

definition bn_times :: "BigNumber \<Rightarrow> BigNumber \<Rightarrow> BigNumber" where
  "bn_times x y = num_mul x y"

definition bn_negated :: "BigNumber \<Rightarrow> BigNumber" where
  "bn_negated x = num_neg x"

definition bn_div :: "BigNumber \<Rightarrow> BigNumber \<Rightarrow> BigNumber" where
  "bn_div x y = (case num_div x y of Num q \<Rightarrow> Num (round_half_up q) | r \<Rightarrow> r)"

fun bn_isZero :: "BigNumber \<Rightarrow> bool" where
  "bn_isZero (Num a) = (a = 0)"
| "bn_isZero _ = False"

definition bn_isLessThan :: "BigNumber \<Rightarrow> BigNumber \<Rightarrow> bool" where
  "bn_isLessThan x y = num_lt x y"

definition bn_isGreaterThan :: "BigNumber \<Rightarrow> BigNumber \<Rightarrow> bool" where
  "bn_isGreaterThan x y = num_lt y x"

section \<open>Pair information (types/pairInfo.ts)\<close>

record PairParams =
  onePercentDepthAbove :: number
  onePercentDepthBelow :: number

record StoragePairParams =
  pnlPriceImpactMultiplier :: number
  pnlSkewImpactMultiplier :: number
  pnlPosSpreadCap :: number
  pnlNegSpreadCap :: number
  negSpreadCap :: number
  posSpreadCap :: number

record OpenInterest =
  long :: number
  short :: number

text \<open>Optional fields (\<^verbatim>\<open>pairParams?\<close>, ...) are options; \<^verbatim>\<open>None\<close> is \<^verbatim>\<open>undefined\<close>.\<close>

record PairInfo =
  priceImpactMultiplier :: number
  skewImpactMultiplier :: number
  spreadP :: number
  pairParams :: "PairParams option"
  storagePairParams :: "StoragePairParams option"
  pnlSpreadP :: "number option"
  openInterest :: "OpenInterest option"

section \<open>Market lookup (utils/pairInfoApi.ts)\<close>

definition marketMap :: "string \<rightharpoonup> int" where
  "marketMap =
     [''BTC/USD'' \<mapsto> 0, ''ETH/USD'' \<mapsto> 1, ''SOL/USD'' \<mapsto> 2, ''AVAX/USD'' \<mapsto> 3,
      ''MATIC/USD'' \<mapsto> 4, ''ARB/USD'' \<mapsto> 5, ''OP/USD'' \<mapsto> 6]"

text \<open>
  \<^verbatim>\<open>marketMap[market] ?? 0\<close> reads a property of an object literal. For a market in the
  table it is the index, and for any other string \<^verbatim>\<open>undefined\<close>, replaced by 0, except
  for the names that every object inherits from \<^verbatim>\<open>Object.prototype\<close>: there the lookup
  yields the inherited member (a function or an object), which \<^verbatim>\<open>??\<close> keeps.
\<close>

datatype PairIndexValue = PairIndex int | InheritedMember

definition objectPrototypeKeys :: "string list" where
  "objectPrototypeKeys =
     [''constructor'', ''hasOwnProperty'', ''isPrototypeOf'', ''propertyIsEnumerable'',
      ''toLocaleString'', ''toString'', ''valueOf'', ''__proto__'', ''__defineGetter__'',
      ''__defineSetter__'', ''__lookupGetter__'', ''__lookupSetter__'']"

definition getPairIndexFromMarket :: "string \<Rightarrow> PairIndexValue" where
  "getPairIndexFromMarket m =
     (case marketMap m of
        Some i \<Rightarrow> PairIndex i
      | None \<Rightarrow> if m \<in> set objectPrototypeKeys then InheritedMember else PairIndex 0)"

section \<open>The spread model (utils/spreadCalculator.ts)\<close>

text \<open>
  The fields \<^verbatim>\<open>market\<close>, \<^verbatim>\<open>leverage\<close>, \<^verbatim>\<open>currentPrice\<close> and \<^verbatim>\<open>pairInfo\<close> of
  \<^verbatim>\<open>SpreadParams\<close> carry the suffix \<open>_sp\<close>: a position has fields of the same names.
\<close>

record SpreadParams =
  market_sp :: string
  leverage_sp :: number
  positionSize :: number
  currentPrice_sp :: number
  isLong :: bool
  pairInfo_sp :: PairInfo
  pairIndex :: "PairIndexValue option"

record SpreadResult =
  priceImpactSpread :: number
  skewImpactSpread :: number
  dynamicSpread :: number
  pnlDynamicSpread :: number

definition getPriceImpactSpread ::
  "bool \<Rightarrow> BigNumber \<Rightarrow> BigNumber \<Rightarrow> BigNumber \<Rightarrow> BigNumber \<Rightarrow> number" where
  "getPriceImpactSpread isLong' onePercentDepthAbove' onePercentDepthBelow' positionSize'
       priceImpactMultiplier' =
     (let onePercentDepthParam = (if isLong' then onePercentDepthAbove' else onePercentDepthBelow')
      in if bn_isZero onePercentDepthParam then Num 0
         else
           let param = toNumber
                 (bn_div (bn_div (bn_times priceImpactMultiplier' positionSize') onePercentDepthParam)
                    (BigNumber (Num (10 ^ 18))))
           in num_sub (Math_exp param) (Num 1))"

definition getSkewImpactSpread :: "bool \<Rightarrow> BigNumber \<Rightarrow> BigNumber \<Rightarrow> PairInfo \<Rightarrow> number" where
  "getSkewImpactSpread isLong' positionSize' skewImpactMultipler pairInfo' =
     (case openInterest pairInfo' of
        None \<Rightarrow> Num 0
      | Some oi \<Rightarrow>
          let longOpenInterest = bn_times (BigNumber (long oi)) (BigNumber (Num (10 ^ 18)));
              shortOpenInterest = bn_times (BigNumber (short oi)) (BigNumber (Num (10 ^ 18)))
          in if bn_isZero longOpenInterest then Num 0
             else
               let totalOpenInterest = bn_plus longOpenInterest shortOpenInterest;
                   skewP = (if isLong' then bn_div longOpenInterest totalOpenInterest
                            else bn_div shortOpenInterest totalOpenInterest);
                   skewPAfter =
                     (if isLong'
                      then bn_div (bn_plus longOpenInterest positionSize')
                             (bn_plus totalOpenInterest positionSize')
                      else bn_div (bn_plus shortOpenInterest positionSize')
                             (bn_plus totalOpenInterest positionSize'));
                   rawSpread =
                     bn_times
                       (bn_minus
                          (bn_plus
                             (bn_minus (BigNumber (Math_exp (toNumber skewPAfter)))
                                (BigNumber (Math_exp (toNumber skewP))))
                             (BigNumber (Math_exp (num_sub (Num 1) (toNumber skewPAfter)))))
                          (BigNumber (Math_exp (num_sub (Num 1) (toNumber skewP)))))
                       (BigNumber (Num (10 ^ 18)))
               in toNumber (bn_div (bn_times skewImpactMultipler rawSpread)
                              (BigNumber (Num (10 ^ 36)))))"

text \<open>
  \<^verbatim>\<open>calculateDynamicSpread\<close>. The two \<^verbatim>\<open>console.log\<close> calls have no effect on the
  result. The fields \<^verbatim>\<open>priceImpactMultiplier\<close>, \<^verbatim>\<open>skewImpactMultiplier\<close> and
  \<^verbatim>\<open>spreadP\<close> are required by the type, so their \<^verbatim>\<open>?? 0\<close> never applies. Local
  constants carry a prime where a record field has the same name.
\<close>

definition calculateDynamicSpread :: "SpreadParams \<Rightarrow> SpreadResult" where
  "calculateDynamicSpread params =
     (let isLong' = isLong params;
          leverage' = leverage_sp params;
          positionSize' = positionSize params;
          pairInfo' = pairInfo_sp params;
          priceImpactMultiplier' = priceImpactMultiplier pairInfo';
          skewImpactMultiplier' = skewImpactMultiplier pairInfo';
          pairSpreadP = spreadP pairInfo';
          onePercentDepthAbove' =
            (case pairParams pairInfo' of None \<Rightarrow> Num 0 | Some pp \<Rightarrow> onePercentDepthAbove pp);
          onePercentDepthBelow' =
            (case pairParams pairInfo' of None \<Rightarrow> Num 0 | Some pp \<Rightarrow> onePercentDepthBelow pp);
          pnlSpreadP' = (case pnlSpreadP pairInfo' of None \<Rightarrow> Num 0 | Some v \<Rightarrow> v);
          pairIndex' = (case pairIndex params of None \<Rightarrow> PairIndex 0 | Some i \<Rightarrow> i);
          pnlPriceImpactMultiplier' =
            (case storagePairParams pairInfo' of
               None \<Rightarrow> (if pairIndex' = PairIndex 1 then Num 1.4 else Num 1.2)
             | Some sp \<Rightarrow> pnlPriceImpactMultiplier sp);
          pnlSkewImpactMultiplier' =
            (case storagePairParams pairInfo' of
               None \<Rightarrow> (if pairIndex' = PairIndex 1 then Num 1.4 else Num 1.2)
             | Some sp \<Rightarrow> pnlSkewImpactMultiplier sp);
          pnlNegSpreadCap' =
            (case storagePairParams pairInfo' of None \<Rightarrow> Num 2 | Some sp \<Rightarrow> pnlPosSpreadCap sp);
          pnlPosSpreadCap' =
            (case storagePairParams pairInfo' of None \<Rightarrow> Num 5 | Some sp \<Rightarrow> pnlNegSpreadCap sp);
          posSpreadCap' =
            (case storagePairParams pairInfo' of None \<Rightarrow> Num 2 | Some sp \<Rightarrow> negSpreadCap sp);
          negSpreadCap' =
            (case storagePairParams pairInfo' of None \<Rightarrow> Num 25 | Some sp \<Rightarrow> posSpreadCap sp);
          e18 = BigNumber (Num (10 ^ 18));
          positionSizeBN = bn_times (bn_times (BigNumber positionSize') leverage') e18;
          priceImpactMultiplierBN = bn_times (BigNumber priceImpactMultiplier') e18;
          pnlPriceImpactMultiplierBN = bn_times (BigNumber pnlPriceImpactMultiplier') e18;
          skewImpactMultiplerBN = bn_times (BigNumber skewImpactMultiplier') e18;
          pnlSkewImpactMultiplerBN = bn_times (BigNumber pnlSkewImpactMultiplier') e18;
          onePercentDepthAboveBN = bn_times (BigNumber onePercentDepthAbove') e18;
          onePercentDepthBelowBN = bn_times (BigNumber onePercentDepthBelow') e18;
          pairSpreadPBN = bn_times (BigNumber pairSpreadP) e18;
          pnlSpreadPBN = bn_times (BigNumber pnlSpreadP') e18;
          priceImpactSpread' =
            getPriceImpactSpread isLong' onePercentDepthAboveBN onePercentDepthBelowBN
              positionSizeBN priceImpactMultiplierBN;
          pnlPriceImpactSpread =
            getPriceImpactSpread isLong' onePercentDepthAboveBN onePercentDepthBelowBN
              positionSizeBN pnlPriceImpactMultiplierBN;
          skewImpactSpread' =
            getSkewImpactSpread isLong' positionSizeBN skewImpactMultiplerBN pairInfo';
          pnlSkewImpactSpread =
            getSkewImpactSpread isLong' positionSizeBN pnlSkewImpactMultiplerBN pairInfo';
          dynamicSpreadBN =
            bn_plus (bn_plus pairSpreadPBN (bn_times (BigNumber priceImpactSpread') e18))
              (bn_times (BigNumber skewImpactSpread') e18);
          pnlDynamicSpreadBN =
            bn_plus (bn_plus pnlSpreadPBN (bn_times (BigNumber pnlPriceImpactSpread) e18))
              (bn_times (BigNumber pnlSkewImpactSpread) e18);
          dynamicSpread0 = toNumber (bn_div dynamicSpreadBN e18);
          pnlDynamicSpread0 = toNumber (bn_div pnlDynamicSpreadBN e18);
          positiveLimit = bn_div (bn_times e18 posSpreadCap') (Num 100);
          negativeLimit = bn_negated (bn_div (bn_times e18 negSpreadCap') (Num 100));
          pnlPositiveLimit = bn_div (bn_times e18 pnlPosSpreadCap') (Num 100);
          pnlNegativeLimit = bn_negated (bn_div (bn_times e18 pnlNegSpreadCap') (Num 100));
          dynamicSpread1 =
            (if bn_isGreaterThan dynamicSpreadBN positiveLimit
             then toNumber (bn_div positiveLimit e18) else dynamicSpread0);
          dynamicSpread2 =
            (if bn_isLessThan dynamicSpreadBN negativeLimit
             then toNumber (bn_div negativeLimit e18) else dynamicSpread1);
          pnlDynamicSpread1 =
            (if bn_isGreaterThan pnlDynamicSpreadBN pnlPositiveLimit
             then toNumber (bn_div pnlPositiveLimit e18) else pnlDynamicSpread0);
          pnlDynamicSpread2 =
            (if bn_isLessThan pnlDynamicSpreadBN pnlNegativeLimit
             then toNumber (bn_div pnlNegativeLimit e18) else pnlDynamicSpread1)
      in \<lparr> priceImpactSpread = (if isNaN priceImpactSpread' then Num 0 else priceImpactSpread'),
           skewImpactSpread = (if isNaN skewImpactSpread' then Num 0 else skewImpactSpread'),
           dynamicSpread = (if isNaN dynamicSpread2 then Num 0 else dynamicSpread2),
           pnlDynamicSpread = (if isNaN pnlDynamicSpread2 then Num 0 else pnlDynamicSpread2) \<rparr>)"

section \<open>The liquidation engine (utils/liquidationCalculator.ts)\<close>

datatype Side = Long | Short

record Position =
  market :: string
  side :: Side
  collateral :: number
  leverage :: number
  entryPrice :: number
  currentPrice :: number
  pairInfo :: "PairInfo option"

record LiquidationResult =
  liquidationPrice :: number
  distanceFromLiquidation :: number
  distanceInPrice :: number
  marginRatio :: number
  isAtRisk :: bool
  isCritical :: bool
  spread :: "number option"

definition lossThreshold :: number where
  "lossThreshold = Num 0.85"

definition calculateLiquidationPrice :: "Position \<Rightarrow> number" where
  "calculateLiquidationPrice position =
     (let priceMovePercent = num_div lossThreshold (leverage position)
      in if side position = Long
         then num_mul (entryPrice position) (num_sub (Num 1) priceMovePercent)
         else num_mul (entryPrice position) (num_add (Num 1) priceMovePercent))"

definition calculateMarginRatio :: "Position \<Rightarrow> number" where
  "calculateMarginRatio position =
     (let positionSize' = num_mul (collateral position) (leverage position);
          pnl = (if side position = Long
                 then num_mul (num_sub (currentPrice position) (entryPrice position))
                        (num_div positionSize' (entryPrice position))
                 else num_mul (num_sub (entryPrice position) (currentPrice position))
                        (num_div positionSize' (entryPrice position)));
          currentEquity = num_add (collateral position) pnl
      in num_div currentEquity positionSize')"

definition calculateLiquidationDistance :: "Position \<Rightarrow> LiquidationResult" where
  "calculateLiquidationDistance position =
     (let liquidationPrice' = calculateLiquidationPrice position;
          currentPrice' = currentPrice position;
          distanceInPrice' =
            (if side position = Long then num_sub currentPrice' liquidationPrice'
             else num_sub liquidationPrice' currentPrice');
          distanceFromLiquidation' =
            (if side position = Long
             then num_mul (num_div (num_sub currentPrice' liquidationPrice') currentPrice') (Num 100)
             else num_mul (num_div (num_sub liquidationPrice' currentPrice') currentPrice') (Num 100));
          marginRatio' = calculateMarginRatio position;
          isAtRisk' = num_lt distanceFromLiquidation' (Num 10);
          isCritical' = num_lt distanceFromLiquidation' (Num 5)
      in \<lparr> liquidationPrice = liquidationPrice',
           distanceFromLiquidation = distanceFromLiquidation',
           distanceInPrice = distanceInPrice',
           marginRatio = marginRatio',
           isAtRisk = isAtRisk',
           isCritical = isCritical',
           spread = None \<rparr>)"

text \<open>
  The \<^verbatim>\<open>spreadParams\<close> object that \<^verbatim>\<open>calculateLiquidationWithSpread\<close> builds from
  the position and its pair information.
\<close>

definition spreadParams :: "Position \<Rightarrow> PairInfo \<Rightarrow> SpreadParams" where
  "spreadParams position pairInfo' =
     \<lparr> market_sp = market position,
       leverage_sp = leverage position,
       positionSize = num_mul (collateral position) (leverage position),
       currentPrice_sp = currentPrice position,
       isLong = (side position = Long),
       pairInfo_sp = pairInfo',
       pairIndex = Some (getPairIndexFromMarket (market position)) \<rparr>"

definition calculateLiquidationWithSpread :: "Position \<Rightarrow> LiquidationResult" where
  "calculateLiquidationWithSpread position =
     (case pairInfo position of
        None \<Rightarrow> calculateLiquidationDistance position
      | Some pairInfo' \<Rightarrow>
          let spreadResult = calculateDynamicSpread (spreadParams position pairInfo');
              adjustedEntryPrice =
                (if side position = Long
                 then num_mul (entryPrice position) (num_add (Num 1) (dynamicSpread spreadResult))
                 else num_mul (entryPrice position) (num_sub (Num 1) (dynamicSpread spreadResult)));
              adjustedPosition = position \<lparr> entryPrice := adjustedEntryPrice \<rparr>;
              result = calculateLiquidationDistance adjustedPosition
          in result \<lparr> spread := Some (num_mul (dynamicSpread spreadResult) (Num 100)) \<rparr>)"

section \<open>Auxiliary definitions for the proofs\<close>

text \<open>
  The capping step of \<^verbatim>\<open>calculateDynamicSpread\<close> on its own: from the uncapped sum
  (18-decimal fixed point) and the two cap percentages to the returned, NaN-normalised
  value. \<open>capValue c\<close> is the fraction that a cap of \<open>c\<close> percent becomes after the two
  rounded divisions; it is \<open>c / 100\<close> whenever that has at most 20 decimal places.
\<close>

definition capSpread :: "BigNumber \<Rightarrow> number \<Rightarrow> number \<Rightarrow> number" where
  "capSpread spreadBN posCap negCap =
     (let e18 = BigNumber (Num (10 ^ 18));
          limitPos = bn_div (bn_times e18 posCap) (Num 100);
          limitNeg = bn_negated (bn_div (bn_times e18 negCap) (Num 100));
          v0 = toNumber (bn_div spreadBN e18);
          v1 = (if bn_isGreaterThan spreadBN limitPos then toNumber (bn_div limitPos e18) else v0);
          v2 = (if bn_isLessThan spreadBN limitNeg then toNumber (bn_div limitNeg e18) else v1)
      in if isNaN v2 then Num 0 else v2)"

definition capValue :: "real \<Rightarrow> real" where
  "capValue c = round_half_up (round_half_up (10 ^ 18 * c / 100) / 10 ^ 18)"

text \<open>
  The depth that \<^verbatim>\<open>getPriceImpactSpread\<close> selects (\<^verbatim>\<open>onePercentDepthParam\<close>), as
  \<^verbatim>\<open>calculateDynamicSpread\<close> reads it from the pair information, before scaling.
\<close>

definition onePercentDepthParam :: "SpreadParams \<Rightarrow> number" where
  "onePercentDepthParam params =
     (case pairParams (pairInfo_sp params) of
        None \<Rightarrow> Num 0
      | Some pp \<Rightarrow> if isLong params then onePercentDepthAbove pp else onePercentDepthBelow pp)"

text \<open>
  The four values of \<^verbatim>\<open>calculateDynamicSpread\<close> as they stand when the \<^verbatim>\<open>return\<close>
  statement is reached, before its \<^verbatim>\<open>isNaN\<close> tests: the same computation, line for
  line, with the local constants \<^verbatim>\<open>priceImpactSpread\<close>, \<^verbatim>\<open>skewImpactSpread\<close>,
  \<^verbatim>\<open>dynamicSpread\<close> and \<^verbatim>\<open>pnlDynamicSpread\<close> returned as they are.
\<close>

definition spreadBeforeNormalization :: "SpreadParams \<Rightarrow> SpreadResult" where
  "spreadBeforeNormalization params =
     (let isLong' = isLong params;
          leverage' = leverage_sp params;
          positionSize' = positionSize params;
          pairInfo' = pairInfo_sp params;
          priceImpactMultiplier' = priceImpactMultiplier pairInfo';
          skewImpactMultiplier' = skewImpactMultiplier pairInfo';
          pairSpreadP = spreadP pairInfo';
          onePercentDepthAbove' =
            (case pairParams pairInfo' of None \<Rightarrow> Num 0 | Some pp \<Rightarrow> onePercentDepthAbove pp);
          onePercentDepthBelow' =
            (case pairParams pairInfo' of None \<Rightarrow> Num 0 | Some pp \<Rightarrow> onePercentDepthBelow pp);
          pnlSpreadP' = (case pnlSpreadP pairInfo' of None \<Rightarrow> Num 0 | Some v \<Rightarrow> v);
          pairIndex' = (case pairIndex params of None \<Rightarrow> PairIndex 0 | Some i \<Rightarrow> i);
          pnlPriceImpactMultiplier' =
            (case storagePairParams pairInfo' of
               None \<Rightarrow> (if pairIndex' = PairIndex 1 then Num 1.4 else Num 1.2)
             | Some sp \<Rightarrow> pnlPriceImpactMultiplier sp);
          pnlSkewImpactMultiplier' =
            (case storagePairParams pairInfo' of
               None \<Rightarrow> (if pairIndex' = PairIndex 1 then Num 1.4 else Num 1.2)
             | Some sp \<Rightarrow> pnlSkewImpactMultiplier sp);
          pnlNegSpreadCap' =
            (case storagePairParams pairInfo' of None \<Rightarrow> Num 2 | Some sp \<Rightarrow> pnlPosSpreadCap sp);
          pnlPosSpreadCap' =
            (case storagePairParams pairInfo' of None \<Rightarrow> Num 5 | Some sp \<Rightarrow> pnlNegSpreadCap sp);
          posSpreadCap' =
            (case storagePairParams pairInfo' of None \<Rightarrow> Num 2 | Some sp \<Rightarrow> negSpreadCap sp);
          negSpreadCap' =
            (case storagePairParams pairInfo' of None \<Rightarrow> Num 25 | Some sp \<Rightarrow> posSpreadCap sp);
          e18 = BigNumber (Num (10 ^ 18));
          positionSizeBN = bn_times (bn_times (BigNumber positionSize') leverage') e18;
          priceImpactMultiplierBN = bn_times (BigNumber priceImpactMultiplier') e18;
          pnlPriceImpactMultiplierBN = bn_times (BigNumber pnlPriceImpactMultiplier') e18;
          skewImpactMultiplerBN = bn_times (BigNumber skewImpactMultiplier') e18;
          pnlSkewImpactMultiplerBN = bn_times (BigNumber pnlSkewImpactMultiplier') e18;
          onePercentDepthAboveBN = bn_times (BigNumber onePercentDepthAbove') e18;
          onePercentDepthBelowBN = bn_times (BigNumber onePercentDepthBelow') e18;
          pairSpreadPBN = bn_times (BigNumber pairSpreadP) e18;
          pnlSpreadPBN = bn_times (BigNumber pnlSpreadP') e18;
          priceImpactSpread' =
            getPriceImpactSpread isLong' onePercentDepthAboveBN onePercentDepthBelowBN
              positionSizeBN priceImpactMultiplierBN;
          pnlPriceImpactSpread =
            getPriceImpactSpread isLong' onePercentDepthAboveBN onePercentDepthBelowBN
              positionSizeBN pnlPriceImpactMultiplierBN;
          skewImpactSpread' =
            getSkewImpactSpread isLong' positionSizeBN skewImpactMultiplerBN pairInfo';
          pnlSkewImpactSpread =
            getSkewImpactSpread isLong' positionSizeBN pnlSkewImpactMultiplerBN pairInfo';
          dynamicSpreadBN =
            bn_plus (bn_plus pairSpreadPBN (bn_times (BigNumber priceImpactSpread') e18))
              (bn_times (BigNumber skewImpactSpread') e18);
          pnlDynamicSpreadBN =
            bn_plus (bn_plus pnlSpreadPBN (bn_times (BigNumber pnlPriceImpactSpread) e18))
              (bn_times (BigNumber pnlSkewImpactSpread) e18);
          dynamicSpread0 = toNumber (bn_div dynamicSpreadBN e18);
          pnlDynamicSpread0 = toNumber (bn_div pnlDynamicSpreadBN e18);
          positiveLimit = bn_div (bn_times e18 posSpreadCap') (Num 100);
          negativeLimit = bn_negated (bn_div (bn_times e18 negSpreadCap') (Num 100));
          pnlPositiveLimit = bn_div (bn_times e18 pnlPosSpreadCap') (Num 100);
          pnlNegativeLimit = bn_negated (bn_div (bn_times e18 pnlNegSpreadCap') (Num 100));
          dynamicSpread1 =
            (if bn_isGreaterThan dynamicSpreadBN positiveLimit
             then toNumber (bn_div positiveLimit e18) else dynamicSpread0);
          dynamicSpread2 =
            (if bn_isLessThan dynamicSpreadBN negativeLimit
             then toNumber (bn_div negativeLimit e18) else dynamicSpread1);
          pnlDynamicSpread1 =
            (if bn_isGreaterThan pnlDynamicSpreadBN pnlPositiveLimit
             then toNumber (bn_div pnlPositiveLimit e18) else pnlDynamicSpread0);
          pnlDynamicSpread2 =
            (if bn_isLessThan pnlDynamicSpreadBN pnlNegativeLimit
             then toNumber (bn_div pnlNegativeLimit e18) else pnlDynamicSpread1)
      in \<lparr> priceImpactSpread = priceImpactSpread',
           skewImpactSpread = skewImpactSpread',
           dynamicSpread = dynamicSpread2,
           pnlDynamicSpread = pnlDynamicSpread2 \<rparr>)"

text \<open>
  The distance computation of \<^verbatim>\<open>calculateLiquidationPrice\<close> and
  \<^verbatim>\<open>calculateLiquidationDistance\<close> on finite values, with a rounding function \<open>rnd\<close>
  applied to the literal 0.85 and to the result of every arithmetic operation, as binary
  floating point does. With \<open>rnd = id\<close> it is the exact arithmetic of \<open>number\<close>.
\<close>

definition liquidationPrice_rounded :: "(real \<Rightarrow> real) \<Rightarrow> Side \<Rightarrow> real \<Rightarrow> real \<Rightarrow> real" where
  "liquidationPrice_rounded rnd s e l =
     (let priceMovePercent = rnd (rnd 0.85 / l)
      in if s = Long then rnd (e * rnd (1 - priceMovePercent))
         else rnd (e * rnd (1 + priceMovePercent)))"

definition distance_rounded ::
  "(real \<Rightarrow> real) \<Rightarrow> Side \<Rightarrow> real \<Rightarrow> real \<Rightarrow> real \<Rightarrow> real" where
  "distance_rounded rnd s e c l =
     (let liquidationPrice' = liquidationPrice_rounded rnd s e l
      in if s = Long then rnd (rnd (rnd (c - liquidationPrice') / c) * 100)
         else rnd (rnd (rnd (liquidationPrice' - c) / c) * 100))"

section \<open>Example inputs\<close>

definition position_10x :: Position where
  "position_10x =
     \<lparr> market = ''BTC/USD'', side = Long, collateral = Num 1000, leverage = Num 10,
       entryPrice = Num 50000, currentPrice = Num 51000, pairInfo = None \<rparr>"

definition position_500x :: Position where
  "position_500x =
     \<lparr> market = ''BTC/USD'', side = Long, collateral = Num 1000, leverage = Num 500,
       entryPrice = Num 105824.50, currentPrice = Num 105824.50, pairInfo = None \<rparr>"

definition position_underwater :: Position where
  "position_underwater =
     \<lparr> market = ''BTC/USD'', side = Long, collateral = Num 1000, leverage = Num 2,
       entryPrice = Num 100, currentPrice = Num 50, pairInfo = None \<rparr>"

text \<open>Pair information with depth data only: multiplier 0.5, one-percent depth 1,000,000.\<close>

definition pairInfo_depth :: PairInfo where
  "pairInfo_depth =
     \<lparr> priceImpactMultiplier = Num 0.5, skewImpactMultiplier = Num 0, spreadP = Num 0,
       pairParams = Some \<lparr> onePercentDepthAbove = Num 1000000, onePercentDepthBelow = Num 1000000 \<rparr>,
       storagePairParams = None, pnlSpreadP = None, openInterest = None \<rparr>"

text \<open>
  Pair information that configures a positive cap of 2 percent and a negative cap of 25
  percent (5 and 2 percent for the PnL spread), with a base spread of 10 percent, a PnL
  base spread of -4 percent and no depth or open-interest data.
\<close>

definition pairInfo_caps :: PairInfo where
  "pairInfo_caps =
     \<lparr> priceImpactMultiplier = Num 0, skewImpactMultiplier = Num 0, spreadP = Num 0.1,
       pairParams = None,
       storagePairParams = Some
         \<lparr> pnlPriceImpactMultiplier = Num 1.2, pnlSkewImpactMultiplier = Num 1.2,
           pnlPosSpreadCap = Num 5, pnlNegSpreadCap = Num 2,
           negSpreadCap = Num 25, posSpreadCap = Num 2 \<rparr>,
       pnlSpreadP = Some (Num (- 0.04)), openInterest = None \<rparr>"

text \<open>
  Pair information with zero depth above, zero open interest and NaN for both base spreads.
\<close>

definition pairInfo_degenerate :: PairInfo where
  "pairInfo_degenerate =
     \<lparr> priceImpactMultiplier = Num 0.5, skewImpactMultiplier = Num 0.5, spreadP = NaN,
       pairParams = Some \<lparr> onePercentDepthAbove = Num 0, onePercentDepthBelow = Num 1000000 \<rparr>,
       storagePairParams = None, pnlSpreadP = Some NaN,
       openInterest = Some \<lparr> long = Num 0, short = Num 0 \<rparr> \<rparr>"

text \<open>Pair information under which every spread term is zero.\<close>

definition pairInfo_zero :: PairInfo where
  "pairInfo_zero =
     \<lparr> priceImpactMultiplier = Num 0.5, skewImpactMultiplier = Num 0.5, spreadP = Num 0,
       pairParams = None, storagePairParams = None, pnlSpreadP = None, openInterest = None \<rparr>"

section \<open>Lemmas on numbers and rounding\<close>

lemma num_mul_one: "num_mul x (Num 1) = x"
  by (cases x) (auto simp: signed_inf_def)

lemma num_lt_5_imp_10: "num_lt d (Num 5) \<Longrightarrow> num_lt d (Num 10)"
  by (cases d) auto

lemma round_half_up_nonneg: "0 \<le> x \<Longrightarrow> 0 \<le> round_half_up x"
  by (simp add: round_half_up_def)

lemma round_half_up_minus: "round_half_up (- x) = - round_half_up x"
  by (cases "x = 0") (auto simp: round_half_up_def)

lemma round_half_up_mono:
  assumes xy: "x \<le> y"
  shows "round_half_up x \<le> round_half_up y"
proof -
  consider "0 \<le> x" | "x < 0" "0 \<le> y" | "y < 0" using xy by linarith
  then show ?thesis
  proof cases
    case 1
    then have "0 \<le> y" using xy by simp
    moreover have "\<lfloor>x * 10 ^ DECIMAL_PLACES + 1 / 2\<rfloor> \<le> \<lfloor>y * 10 ^ DECIMAL_PLACES + 1 / 2\<rfloor>"
      using xy by (intro floor_mono) (simp add: mult_right_mono)
    ultimately show ?thesis using 1 by (simp add: round_half_up_def divide_right_mono)
  next
    case 2
    have "x * 10 ^ DECIMAL_PLACES \<le> 0" using 2(1) by (simp add: mult_nonpos_nonneg)
    then have "0 \<le> - x * 10 ^ DECIMAL_PLACES + 1 / 2" by simp
    then have "0 \<le> \<lfloor>- x * 10 ^ DECIMAL_PLACES + 1 / 2\<rfloor>" by (simp only: zero_le_floor)
    moreover have "0 \<le> \<lfloor>y * 10 ^ DECIMAL_PLACES + 1 / 2\<rfloor>" using 2(2) by simp
    ultimately have "round_half_up x \<le> 0" "0 \<le> round_half_up y"
      using 2 by (simp_all add: round_half_up_def)
    then show ?thesis by linarith
  next
    case 3
    then have "x < 0" using xy by simp
    moreover have "\<lfloor>- y * 10 ^ DECIMAL_PLACES + 1 / 2\<rfloor> \<le> \<lfloor>- x * 10 ^ DECIMAL_PLACES + 1 / 2\<rfloor>"
      using xy by (intro floor_mono) (simp add: mult_right_mono)
    ultimately show ?thesis using 3 by (simp add: round_half_up_def divide_right_mono)
  qed
qed

lemma capValue_nonneg: "0 \<le> c \<Longrightarrow> 0 \<le> capValue c"
  by (simp add: capValue_def round_half_up_nonneg)

lemma capValue_defaults: "capValue 2 = 0.02" "capValue 25 = 0.25" "capValue 5 = 0.05"
  by (simp_all add: capValue_def round_half_up_def DECIMAL_PLACES_def)

section \<open>The capping step\<close>

lemma capSpread_not_NaN: "\<not> isNaN (capSpread s p n)"
  by (simp add: capSpread_def Let_def)

text \<open>
  With non-negative finite caps the capped value is finite and lies between the two
  limits, whatever the uncapped sum is (finite, infinite or NaN).
\<close>

lemma capSpread_range:
  assumes "0 \<le> P" "0 \<le> N"
  shows "\<exists>x. capSpread s (Num P) (Num N) = Num x \<and> - capValue N \<le> x \<and> x \<le> capValue P"
proof -
  let ?pl = "round_half_up (10 ^ 18 * P / 100)"
  let ?nl = "round_half_up (10 ^ 18 * N / 100)"
  have pl: "0 \<le> ?pl" using assms by (intro round_half_up_nonneg) simp
  have nl: "0 \<le> ?nl" using assms by (intro round_half_up_nonneg) simp
  have cP: "0 \<le> capValue P" and cN: "0 \<le> capValue N"
    using assms by (simp_all add: capValue_nonneg)
  show ?thesis
  proof (cases s)
    case (Num v)
    have up: "v \<le> ?pl \<Longrightarrow> round_half_up (v / 10 ^ 18) \<le> capValue P"
      unfolding capValue_def by (intro round_half_up_mono) (simp add: divide_right_mono)
    have lo: "- ?nl \<le> v \<Longrightarrow> - capValue N \<le> round_half_up (v / 10 ^ 18)"
    proof -
      assume "- ?nl \<le> v"
      then have "round_half_up (- ?nl / 10 ^ 18) \<le> round_half_up (v / 10 ^ 18)"
        by (intro round_half_up_mono) (simp add: divide_right_mono)
      then show ?thesis
        using round_half_up_minus[of "?nl / 10 ^ 18"] by (simp add: capValue_def)
    qed
    show ?thesis
      using Num pl nl cP cN up lo round_half_up_minus[of "?nl / 10 ^ 18"]
      by (auto simp: capSpread_def Let_def bn_div_def bn_times_def bn_negated_def
            bn_isGreaterThan_def bn_isLessThan_def capValue_def)
  next
    case PosInfinity
    then show ?thesis
      using cP cN
      by (auto simp: capSpread_def Let_def bn_div_def bn_times_def bn_negated_def
            bn_isGreaterThan_def bn_isLessThan_def capValue_def signed_inf_def)
  next
    case NegInfinity
    then show ?thesis
      using cP cN round_half_up_minus[of "?nl / 10 ^ 18"]
      by (auto simp: capSpread_def Let_def bn_div_def bn_times_def bn_negated_def
            bn_isGreaterThan_def bn_isLessThan_def capValue_def signed_inf_def)
  next
    case NaN
    then show ?thesis
      using cP cN
      by (auto simp: capSpread_def Let_def bn_div_def bn_times_def bn_negated_def
            bn_isGreaterThan_def bn_isLessThan_def)
  qed
qed

section \<open>The fields of the spread result\<close>

lemma priceImpactSpread_calc:
  "priceImpactSpread (calculateDynamicSpread params) =
     (let e18 = Num (10 ^ 18);
          depthAbove = (case pairParams (pairInfo_sp params) of
                          None \<Rightarrow> Num 0 | Some pp \<Rightarrow> onePercentDepthAbove pp);
          depthBelow = (case pairParams (pairInfo_sp params) of
                          None \<Rightarrow> Num 0 | Some pp \<Rightarrow> onePercentDepthBelow pp);
          x = getPriceImpactSpread (isLong params) (bn_times depthAbove e18)
                (bn_times depthBelow e18)
                (bn_times (bn_times (positionSize params) (leverage_sp params)) e18)
                (bn_times (priceImpactMultiplier (pairInfo_sp params)) e18)
      in if isNaN x then Num 0 else x)"
  by (simp add: calculateDynamicSpread_def Let_def)

lemma skewImpactSpread_calc:
  "skewImpactSpread (calculateDynamicSpread params) =
     (let e18 = Num (10 ^ 18);
          x = getSkewImpactSpread (isLong params)
                (bn_times (bn_times (positionSize params) (leverage_sp params)) e18)
                (bn_times (skewImpactMultiplier (pairInfo_sp params)) e18) (pairInfo_sp params)
      in if isNaN x then Num 0 else x)"
  by (simp add: calculateDynamicSpread_def Let_def)

text \<open>
  The positive limit is read from the field \<^verbatim>\<open>negSpreadCap\<close> and the negative limit
  from \<^verbatim>\<open>posSpreadCap\<close>; likewise for the PnL pair.
\<close>

lemma dynamicSpread_calc:
  "\<exists>s. dynamicSpread (calculateDynamicSpread params) =
     capSpread s
       (case storagePairParams (pairInfo_sp params) of
          None \<Rightarrow> Num 2 | Some sp \<Rightarrow> negSpreadCap sp)
       (case storagePairParams (pairInfo_sp params) of
          None \<Rightarrow> Num 25 | Some sp \<Rightarrow> posSpreadCap sp)"
  by (rule exI) (simp add: calculateDynamicSpread_def capSpread_def Let_def)

lemma pnlDynamicSpread_calc:
  "\<exists>s. pnlDynamicSpread (calculateDynamicSpread params) =
     capSpread s
       (case storagePairParams (pairInfo_sp params) of
          None \<Rightarrow> Num 5 | Some sp \<Rightarrow> pnlNegSpreadCap sp)
       (case storagePairParams (pairInfo_sp params) of
          None \<Rightarrow> Num 2 | Some sp \<Rightarrow> pnlPosSpreadCap sp)"
  by (rule exI) (simp add: calculateDynamicSpread_def capSpread_def Let_def)

lemma dynamicSpread_configured_range:
  assumes "storagePairParams (pairInfo_sp params) = Some sp"
    and "negSpreadCap sp = Num a" "posSpreadCap sp = Num b" "0 \<le> a" "0 \<le> b"
  shows "\<exists>x. dynamicSpread (calculateDynamicSpread params) = Num x \<and>
           - capValue b \<le> x \<and> x \<le> capValue a"
proof -
  obtain s where "dynamicSpread (calculateDynamicSpread params) = capSpread s (Num a) (Num b)"
    using dynamicSpread_calc[of params] assms(1-3) by auto
  then show ?thesis using capSpread_range[of a b s] assms(4,5) by simp
qed

lemma num_add_NaN_right: "num_add x NaN = NaN"
  by (cases x) simp_all

lemma num_lt_NaN_right: "num_lt x NaN = False"
  by (cases x) simp_all

lemma num_mul_NaN_right: "num_mul x NaN = NaN"
  by (cases x) simp_all

text \<open>\<^verbatim>\<open>calculateDynamicSpread\<close> returns each of the four values, with 0 in place of NaN.\<close>

lemma calculateDynamicSpread_normalizes:
  "calculateDynamicSpread params =
     (let v = spreadBeforeNormalization params
      in \<lparr> priceImpactSpread =
             (if isNaN (priceImpactSpread v) then Num 0 else priceImpactSpread v),
           skewImpactSpread =
             (if isNaN (skewImpactSpread v) then Num 0 else skewImpactSpread v),
           dynamicSpread = (if isNaN (dynamicSpread v) then Num 0 else dynamicSpread v),
           pnlDynamicSpread =
             (if isNaN (pnlDynamicSpread v) then Num 0 else pnlDynamicSpread v) \<rparr>)"
  by (simp add: calculateDynamicSpread_def spreadBeforeNormalization_def Let_def)

lemma dynamicSpread_NaN_base:
  assumes "spreadP (pairInfo_sp params) = NaN"
  shows "isNaN (dynamicSpread (spreadBeforeNormalization params))"
  using assms
  by (simp add: spreadBeforeNormalization_def Let_def bn_times_def bn_plus_def bn_div_def
        bn_isGreaterThan_def bn_isLessThan_def num_lt_NaN_right)

lemma pnlDynamicSpread_NaN_base:
  assumes "pnlSpreadP (pairInfo_sp params) = Some NaN"
  shows "isNaN (pnlDynamicSpread (spreadBeforeNormalization params))"
  using assms
  by (simp add: spreadBeforeNormalization_def Let_def bn_times_def bn_plus_def bn_div_def
        bn_isGreaterThan_def bn_isLessThan_def num_lt_NaN_right)

section \<open>Liquidation price and distance on finite inputs\<close>

lemma calculateLiquidationPrice_finite:
  assumes "entryPrice p = Num e" "leverage p = Num l" "l \<noteq> 0"
  shows "calculateLiquidationPrice p =
           Num (if side p = Long then e * (1 - 0.85 / l) else e * (1 + 0.85 / l))"
  using assms by (simp add: calculateLiquidationPrice_def lossThreshold_def num_sub_def)

lemma distanceFromLiquidation_finite:
  assumes "entryPrice p = Num e" "leverage p = Num l" "currentPrice p = Num c"
    and "l \<noteq> 0" "c \<noteq> 0"
  shows "distanceFromLiquidation (calculateLiquidationDistance p) =
           Num (if side p = Long then (c - e * (1 - 0.85 / l)) / c * 100
                else (e * (1 + 0.85 / l) - c) / c * 100)"
  using assms
  by (simp add: calculateLiquidationDistance_def calculateLiquidationPrice_def Let_def
        lossThreshold_def num_sub_def)

section \<open>The distance under rounded arithmetic\<close>

lemma distance_rounded_exact:
  assumes "entryPrice p = Num e" "leverage p = Num l" "currentPrice p = Num c"
    and "l \<noteq> 0" "c \<noteq> 0"
  shows "distanceFromLiquidation (calculateLiquidationDistance p) =
           Num (distance_rounded id (side p) e c l)"
  using assms
  by (simp add: calculateLiquidationDistance_def calculateLiquidationPrice_def Let_def
        lossThreshold_def num_sub_def distance_rounded_def liquidationPrice_rounded_def)

text \<open>
  Whatever the rounding, as long as it is monotone and keeps 0.85 non-negative, a higher
  leverage never gives a larger distance. Ties are possible: rounding can absorb the
  difference between two leverages.
\<close>

lemma distance_rounded_antimono:
  assumes rnd: "mono rnd" and k: "0 \<le> rnd 0.85"
    and e: "0 \<le> e" and c: "0 < c" and L: "0 < L1" "L1 \<le> L2"
  shows "distance_rounded rnd s e c L2 \<le> distance_rounded rnd s e c L1"
proof -
  have m: "x \<le> y \<Longrightarrow> rnd x \<le> rnd y" for x y using rnd by (rule monoD)
  have "rnd 0.85 / L2 \<le> rnd 0.85 / L1"
    using k L by (intro divide_left_mono) (simp_all add: mult_pos_pos)
  then have move: "rnd (rnd 0.85 / L2) \<le> rnd (rnd 0.85 / L1)" by (rule m)
  let ?m1 = "rnd (rnd 0.85 / L1)" and ?m2 = "rnd (rnd 0.85 / L2)"
  show ?thesis
  proof (cases "s = Long")
    case True
    let ?q1 = "rnd (e * rnd (1 - ?m1))" and ?q2 = "rnd (e * rnd (1 - ?m2))"
    have "1 - ?m1 \<le> 1 - ?m2" using move by simp
    then have "rnd (1 - ?m1) \<le> rnd (1 - ?m2)" by (rule m)
    then have "e * rnd (1 - ?m1) \<le> e * rnd (1 - ?m2)" using e by (rule mult_left_mono)
    then have "?q1 \<le> ?q2" by (rule m)
    then have "c - ?q2 \<le> c - ?q1" by simp
    then have "rnd (c - ?q2) \<le> rnd (c - ?q1)" by (rule m)
    then have "rnd (c - ?q2) / c \<le> rnd (c - ?q1) / c"
      using c by (simp add: divide_right_mono)
    then have "rnd (rnd (c - ?q2) / c) \<le> rnd (rnd (c - ?q1) / c)" by (rule m)
    then have "rnd (rnd (c - ?q2) / c) * 100 \<le> rnd (rnd (c - ?q1) / c) * 100" by simp
    then have "rnd (rnd (rnd (c - ?q2) / c) * 100) \<le> rnd (rnd (rnd (c - ?q1) / c) * 100)"
      by (rule m)
    then show ?thesis
      using True by (simp add: distance_rounded_def liquidationPrice_rounded_def)
  next
    case False
    let ?q1 = "rnd (e * rnd (1 + ?m1))" and ?q2 = "rnd (e * rnd (1 + ?m2))"
    have "1 + ?m2 \<le> 1 + ?m1" using move by simp
    then have "rnd (1 + ?m2) \<le> rnd (1 + ?m1)" by (rule m)
    then have "e * rnd (1 + ?m2) \<le> e * rnd (1 + ?m1)" using e by (rule mult_left_mono)
    then have "?q2 \<le> ?q1" by (rule m)
    then have "?q2 - c \<le> ?q1 - c" by simp
    then have "rnd (?q2 - c) \<le> rnd (?q1 - c)" by (rule m)
    then have "rnd (?q2 - c) / c \<le> rnd (?q1 - c) / c"
      using c by (simp add: divide_right_mono)
    then have "rnd (rnd (?q2 - c) / c) \<le> rnd (rnd (?q1 - c) / c)" by (rule m)
    then have "rnd (rnd (?q2 - c) / c) * 100 \<le> rnd (rnd (?q1 - c) / c) * 100" by simp
    then have "rnd (rnd (rnd (?q2 - c) / c) * 100) \<le> rnd (rnd (rnd (?q1 - c) / c) * 100)"
      by (rule m)
    then show ?thesis
      using False by (simp add: distance_rounded_def liquidationPrice_rounded_def)
  qed
qed

section \<open>Claims about the liquidation engine\<close>

text \<open>
  Claim C1, the general formula and the value the code returns at the stated example.
  For a position with finite entry price \<open>e > 0\<close> and finite leverage \<open>l > 0\<close>,
  \<^verbatim>\<open>calculateLiquidationPrice\<close> returns \<open>e * (1 - 0.85 / l)\<close> for a long and
  \<open>e * (1 + 0.85 / l)\<close> for a short position; for a long position at leverage 500 and entry
  price 105824.50 it returns 105644.59835, the threshold-only value.
\<close>

theorem calculateLiquidationPrice_threshold_formula:
  assumes "entryPrice p = Num e" "leverage p = Num l" "0 < e" "0 < l"
  shows "calculateLiquidationPrice p =
           Num (if side p = Long then e * (1 - 0.85 / l) else e * (1 + 0.85 / l)) \<and>
         calculateLiquidationPrice position_500x = Num 105644.59835"
proof
  show "calculateLiquidationPrice p =
          Num (if side p = Long then e * (1 - 0.85 / l) else e * (1 + 0.85 / l))"
    using assms by (intro calculateLiquidationPrice_finite) simp_all
  show "calculateLiquidationPrice position_500x = Num 105644.59835"
    by (simp add: calculateLiquidationPrice_def lossThreshold_def num_sub_def position_500x_def)
qed

theorem calculateLiquidationPrice_threshold_formula_witness:
  "entryPrice (position_10x \<lparr> side := Short \<rparr>) = Num 50000 \<and>
   leverage (position_10x \<lparr> side := Short \<rparr>) = Num 10 \<and> (0::real) < 50000 \<and> (0::real) < 10 \<and>
   calculateLiquidationPrice (position_10x \<lparr> side := Short \<rparr>) = Num 54250 \<and>
   calculateLiquidationPrice position_500x = Num 105644.59835"
  using calculateLiquidationPrice_threshold_formula
          [of "position_10x \<lparr> side := Short \<rparr>" 50000 10]
  by (simp add: position_10x_def)

text \<open>
  The value stated in claim C1 for the example, 105644.49, is not what the code returns:
  the result is 105644.59835, more than 0.10 away.
\<close>

theorem calculateLiquidationPrice_500x_counterexample:
  "calculateLiquidationPrice position_500x = Num 105644.59835 \<and>
   0.10 < \<bar>105644.59835 - 105644.49 :: real\<bar>"
  by (simp add: calculateLiquidationPrice_def lossThreshold_def num_sub_def position_500x_def)

text \<open>
  Claim C4. For every position, the result of \<^verbatim>\<open>calculateLiquidationDistance\<close> has
  \<open>distanceInPrice = currentPrice - liquidationPrice\<close> for a long and
  \<open>liquidationPrice - currentPrice\<close> for a short position,
  \<open>distanceFromLiquidation = distanceInPrice / currentPrice * 100\<close>,
  \<open>isAtRisk = (distanceFromLiquidation < 10)\<close> and
  \<open>isCritical = (distanceFromLiquidation < 5)\<close>. For the long position with leverage 10,
  collateral 1000, entry price 50000 and current price 51000 the liquidation price is 45750,
  the distance in price 5250, the distance 175/17 percent (10.29 to two places), and the
  position is not at risk.
\<close>

theorem calculateLiquidationDistance_fields:
  "liquidationPrice (calculateLiquidationDistance p) = calculateLiquidationPrice p \<and>
   distanceInPrice (calculateLiquidationDistance p) =
     (if side p = Long then num_sub (currentPrice p) (calculateLiquidationPrice p)
      else num_sub (calculateLiquidationPrice p) (currentPrice p)) \<and>
   distanceFromLiquidation (calculateLiquidationDistance p) =
     num_mul (num_div (distanceInPrice (calculateLiquidationDistance p)) (currentPrice p)) (Num 100) \<and>
   isAtRisk (calculateLiquidationDistance p) =
     num_lt (distanceFromLiquidation (calculateLiquidationDistance p)) (Num 10) \<and>
   isCritical (calculateLiquidationDistance p) =
     num_lt (distanceFromLiquidation (calculateLiquidationDistance p)) (Num 5) \<and>
   liquidationPrice (calculateLiquidationDistance position_10x) = Num 45750 \<and>
   distanceInPrice (calculateLiquidationDistance position_10x) = Num 5250 \<and>
   distanceFromLiquidation (calculateLiquidationDistance position_10x) = Num (175 / 17) \<and>
   (10.29 :: real) \<le> 175 / 17 \<and> (175 / 17 :: real) < 10.30 \<and>
   isAtRisk (calculateLiquidationDistance position_10x) = False"
  by (simp add: calculateLiquidationDistance_def calculateLiquidationPrice_def Let_def
        lossThreshold_def num_sub_def position_10x_def)

text \<open>
  Claim C7. In the result of \<^verbatim>\<open>calculateLiquidationDistance\<close>, and so in the result of
  \<^verbatim>\<open>calculateLiquidationWithSpread\<close>, a critical position is at risk.
\<close>

theorem isCritical_implies_isAtRisk:
  "(isCritical (calculateLiquidationDistance p) \<longrightarrow> isAtRisk (calculateLiquidationDistance p)) \<and>
   (isCritical (calculateLiquidationWithSpread p) \<longrightarrow> isAtRisk (calculateLiquidationWithSpread p))"
  by (auto simp: calculateLiquidationWithSpread_def calculateLiquidationDistance_def Let_def
        num_lt_5_imp_10 split: option.splits)

theorem isCritical_implies_isAtRisk_witness:
  "isCritical (calculateLiquidationDistance position_500x) \<and>
   isAtRisk (calculateLiquidationDistance position_500x) \<and>
   isCritical (calculateLiquidationWithSpread position_500x) \<and>
   isAtRisk (calculateLiquidationWithSpread position_500x)"
proof -
  have c: "isCritical (calculateLiquidationDistance position_500x)"
    by (simp add: calculateLiquidationDistance_def calculateLiquidationPrice_def Let_def
          lossThreshold_def num_sub_def position_500x_def)
  have w: "isCritical (calculateLiquidationWithSpread position_500x)"
    by (simp add: calculateLiquidationWithSpread_def calculateLiquidationDistance_def
          calculateLiquidationPrice_def Let_def lossThreshold_def num_sub_def position_500x_def)
  show ?thesis using c w isCritical_implies_isAtRisk[of position_500x] by simp
qed

text \<open>
  Claim C8, as the code has it. With side, collateral, a finite entry price \<open>e > 0\<close> and a
  finite current price \<open>c > 0\<close> fixed, and leverages \<open>1 \<le> L1 < L2\<close>, the signed
  \<open>distanceFromLiquidation\<close> at \<open>L2\<close> is never larger than at \<open>L1\<close>, and its
  magnitude is never larger whenever the distance at \<open>L2\<close> is not negative, that is,
  while the position at \<open>L2\<close> is not past its liquidation price. The order is stated
  without strictness: in binary floating point two leverages can give the same distance,
  and by \<open>distance_rounded_antimono\<close> no monotone rounding reverses the order.
\<close>

theorem distanceFromLiquidation_not_larger_at_higher_leverage:
  assumes "entryPrice p = Num e" "currentPrice p = Num c" "0 < e" "0 < c" "1 \<le> L1" "L1 < L2"
  shows "\<exists>d1 d2.
     distanceFromLiquidation (calculateLiquidationDistance (p \<lparr> leverage := Num L1 \<rparr>)) = Num d1 \<and>
     distanceFromLiquidation (calculateLiquidationDistance (p \<lparr> leverage := Num L2 \<rparr>)) = Num d2 \<and>
     d2 \<le> d1 \<and> (0 \<le> d2 \<longrightarrow> \<bar>d2\<bar> \<le> \<bar>d1\<bar>)"
proof -
  have pos: "0 < L1" "0 < L2" using assms by linarith+
  have inv: "0.85 / L2 < 0.85 / L1" using pos assms(6) by (simp add: frac_less2)
  have m: "e * (0.85 / L2) < e * (0.85 / L1)" using inv assms(3) by (rule mult_strict_left_mono)
  let ?d = "\<lambda>L. if side p = Long then (c - e * (1 - 0.85 / L)) / c * 100
                 else (e * (1 + 0.85 / L) - c) / c * 100"
  have d1: "distanceFromLiquidation (calculateLiquidationDistance (p \<lparr> leverage := Num L1 \<rparr>)) =
              Num (?d L1)"
    using distanceFromLiquidation_finite[of "p \<lparr> leverage := Num L1 \<rparr>" e L1 c] assms pos by simp
  have d2: "distanceFromLiquidation (calculateLiquidationDistance (p \<lparr> leverage := Num L2 \<rparr>)) =
              Num (?d L2)"
    using distanceFromLiquidation_finite[of "p \<lparr> leverage := Num L2 \<rparr>" e L2 c] assms pos by simp
  have lt: "?d L2 < ?d L1"
  proof (cases "side p = Long")
    case True
    have "c - e * (1 - 0.85 / L2) < c - e * (1 - 0.85 / L1)"
      using m by (simp add: algebra_simps)
    then have "(c - e * (1 - 0.85 / L2)) / c < (c - e * (1 - 0.85 / L1)) / c"
      using assms(4) by (rule divide_strict_right_mono)
    then have "(c - e * (1 - 0.85 / L2)) / c * 100 < (c - e * (1 - 0.85 / L1)) / c * 100"
      by (rule mult_strict_right_mono) simp
    then show ?thesis using True by simp
  next
    case False
    have "e * (1 + 0.85 / L2) - c < e * (1 + 0.85 / L1) - c"
      using m by (simp add: algebra_simps)
    then have "(e * (1 + 0.85 / L2) - c) / c < (e * (1 + 0.85 / L1) - c) / c"
      using assms(4) by (rule divide_strict_right_mono)
    then have "(e * (1 + 0.85 / L2) - c) / c * 100 < (e * (1 + 0.85 / L1) - c) / c * 100"
      by (rule mult_strict_right_mono) simp
    then show ?thesis using False by simp
  qed
  show ?thesis
    using d1 d2 lt by (intro exI[of _ "?d L1"] exI[of _ "?d L2"]) auto
qed

theorem distanceFromLiquidation_not_larger_at_higher_leverage_witness:
  "entryPrice position_10x = Num 50000 \<and> currentPrice position_10x = Num 51000 \<and>
   (0::real) < 50000 \<and> (0::real) < 51000 \<and> (1::real) \<le> 10 \<and> (10::real) < 20 \<and>
   (\<exists>d1 d2.
      distanceFromLiquidation (calculateLiquidationDistance (position_10x \<lparr> leverage := Num 10 \<rparr>)) = Num d1 \<and>
      distanceFromLiquidation (calculateLiquidationDistance (position_10x \<lparr> leverage := Num 20 \<rparr>)) = Num d2 \<and>
      d2 \<le> d1 \<and> (0 \<le> d2 \<longrightarrow> \<bar>d2\<bar> \<le> \<bar>d1\<bar>))"
  using distanceFromLiquidation_not_larger_at_higher_leverage[of position_10x 50000 51000 10 20]
  by (simp add: position_10x_def)

text \<open>
  Claim C8 as stated fails once the price is past the liquidation price. A long position
  entered at 100 with the price now at 50 has distance -15 percent at leverage 2 and -83
  percent at leverage 10: the magnitude grows from 15 to 83.
\<close>

theorem distance_magnitude_counterexample:
  "distanceFromLiquidation (calculateLiquidationDistance position_underwater) = Num (- 15) \<and>
   distanceFromLiquidation
     (calculateLiquidationDistance (position_underwater \<lparr> leverage := Num 10 \<rparr>)) = Num (- 83) \<and>
   leverage position_underwater = Num 2 \<and> (1::real) \<le> 2 \<and> (2::real) < 10 \<and>
   \<not> \<bar>- 83 :: real\<bar> < \<bar>- 15\<bar>"
  by (simp add: calculateLiquidationDistance_def calculateLiquidationPrice_def Let_def
        lossThreshold_def num_sub_def position_underwater_def)

text \<open>
  Claim C9. For a position with finite entry price \<open>e > 0\<close>, \<^verbatim>\<open>calculateMarginRatio\<close>
  returns \<open>(collateral + PnL) / (collateral * leverage)\<close> with
  \<open>PnL = (currentPrice - entryPrice) * (collateral * leverage) / entryPrice\<close> for a long
  position and the negation of that for a short one. The first conjunct states it in the
  arithmetic of numbers, for all values of the other fields; the second in real arithmetic,
  for finite fields with a non-zero position size.
\<close>

theorem calculateMarginRatio_formula:
  assumes "entryPrice p = Num e" "0 < e"
  shows "calculateMarginRatio p =
           (let positionSize' = num_mul (collateral p) (leverage p);
                pnlLong = num_div (num_mul (num_sub (currentPrice p) (entryPrice p)) positionSize')
                            (entryPrice p);
                pnl = (if side p = Long then pnlLong else num_neg pnlLong)
            in num_div (num_add (collateral p) pnl) positionSize') \<and>
         (collateral p = Num k \<and> leverage p = Num l \<and> currentPrice p = Num c \<and> k * l \<noteq> 0 \<longrightarrow>
            calculateMarginRatio p =
              Num ((k + (if side p = Long then (c - e) * (k * l) / e
                         else - ((c - e) * (k * l) / e))) / (k * l)))"
proof -
  have A: "num_mul (num_sub x (Num e)) (num_div s (Num e)) =
             num_div (num_mul (num_sub x (Num e)) s) (Num e)" for x s
    using assms(2)
    by (cases x; cases s)
       (auto simp: num_sub_def signed_inf_def divide_less_0_iff zero_less_divide_iff)
  have R: "(e - x) * y / e = - ((x - e) * y / e)" for x y
  proof -
    have "(e - x) * y = - ((x - e) * y)" by (simp add: algebra_simps)
    then show ?thesis by simp
  qed
  have B: "num_mul (num_sub (Num e) x) (num_div s (Num e)) =
             num_neg (num_div (num_mul (num_sub x (Num e)) s) (Num e))" for x s
    using assms(2)
    by (cases x; cases s)
       (auto simp: num_sub_def signed_inf_def divide_less_0_iff zero_less_divide_iff R)
  have general: "calculateMarginRatio p =
           (let positionSize' = num_mul (collateral p) (leverage p);
                pnlLong = num_div (num_mul (num_sub (currentPrice p) (entryPrice p)) positionSize')
                            (entryPrice p);
                pnl = (if side p = Long then pnlLong else num_neg pnlLong)
            in num_div (num_add (collateral p) pnl) positionSize')"
    using assms(1) by (simp add: calculateMarginRatio_def Let_def A B)
  have finite: "calculateMarginRatio p =
              Num ((k + (if side p = Long then (c - e) * (k * l) / e
                         else - ((c - e) * (k * l) / e))) / (k * l))"
    if "collateral p = Num k" "leverage p = Num l" "currentPrice p = Num c" "k * l \<noteq> 0"
    using that assms by (simp add: calculateMarginRatio_def Let_def num_sub_def R)
  show ?thesis using general finite by blast
qed

theorem calculateMarginRatio_formula_witness:
  "entryPrice position_10x = Num 50000 \<and> (0::real) < 50000 \<and>
   collateral position_10x = Num 1000 \<and> leverage position_10x = Num 10 \<and>
   currentPrice position_10x = Num 51000 \<and> (1000::real) * 10 \<noteq> 0 \<and>
   calculateMarginRatio position_10x = Num (3 / 25)"
  using calculateMarginRatio_formula[of position_10x 50000 1000 10 51000]
  by (simp add: position_10x_def Let_def num_sub_def)

section \<open>Claims about the spread model\<close>

text \<open>
  Claim C2, evaluated on the code. \<^verbatim>\<open>calculateLiquidationWithSpread\<close> passes
  \<open>positionSize = collateral * leverage\<close> to the spread model, and
  \<^verbatim>\<open>calculateDynamicSpread\<close> multiplies that by the leverage once more before the
  price-impact ratio is taken. For collateral 1000, leverage 10, multiplier 0.5 and depth
  1,000,000 the price-impact spread is \<open>exp (0.5 * (1000 * 10) * 10 / 1000000) - 1\<close>,
  which is not the \<open>exp (0.5 * (1000 * 10) / 1000000) - 1\<close> of the claim. The
  difference shows in the result of \<^verbatim>\<open>calculateLiquidationWithSpread\<close>: the spread
  field is 2 percent, the default cap, where the value of the claim (about 0.5 percent)
  would have stayed under the cap.
\<close>

theorem priceImpactSpread_multiplies_leverage_twice:
  "positionSize (spreadParams (position_10x \<lparr> pairInfo := Some pairInfo_depth \<rparr>) pairInfo_depth) =
     Num (1000 * 10) \<and>
   priceImpactSpread
     (calculateDynamicSpread
        (spreadParams (position_10x \<lparr> pairInfo := Some pairInfo_depth \<rparr>) pairInfo_depth)) =
     Num (exp (0.5 * (1000 * 10) * 10 / 1000000) - 1) \<and>
   exp (0.5 * (1000 * 10) * 10 / 1000000) - 1 \<noteq> (exp (0.5 * (1000 * 10) / 1000000) - 1 :: real) \<and>
   spread (calculateLiquidationWithSpread (position_10x \<lparr> pairInfo := Some pairInfo_depth \<rparr>)) =
     Some (Num 2) \<and>
   (exp (0.5 * (1000 * 10) / 1000000) - 1) * 100 < (2 :: real)"
proof -
  let ?p = "position_10x \<lparr> pairInfo := Some pairInfo_depth \<rparr>"
  have size: "positionSize (spreadParams ?p pairInfo_depth) = Num (1000 * 10)"
    by (simp add: spreadParams_def position_10x_def)
  have impact: "priceImpactSpread (calculateDynamicSpread (spreadParams ?p pairInfo_depth)) =
                  Num (exp (0.5 * (1000 * 10) * 10 / 1000000) - 1)"
    by (simp add: priceImpactSpread_calc Let_def spreadParams_def position_10x_def
          pairInfo_depth_def getPriceImpactSpread_def bn_times_def bn_div_def round_half_up_def
          DECIMAL_PLACES_def num_sub_def)
  have differ: "exp (0.5 * (1000 * 10) * 10 / 1000000) - 1 \<noteq>
                  (exp (0.5 * (1000 * 10) / 1000000) - 1 :: real)"
    by simp
  have above: "(2::real) * 10 ^ 16 < (exp (1 / 20) - 1) * 10 ^ 18"
    using exp_ge_add_one_self[of "0.05::real"] by simp
  have "dynamicSpread (calculateDynamicSpread (spreadParams ?p pairInfo_depth)) = Num 0.02"
    using above
    by (simp add: calculateDynamicSpread_def Let_def spreadParams_def position_10x_def
          pairInfo_depth_def getPriceImpactSpread_def getSkewImpactSpread_def bn_times_def
          bn_div_def bn_plus_def bn_negated_def bn_isGreaterThan_def bn_isLessThan_def
          round_half_up_def DECIMAL_PLACES_def num_sub_def)
  then have capped: "spread (calculateLiquidationWithSpread ?p) = Some (Num 2)"
    by (simp add: calculateLiquidationWithSpread_def Let_def position_10x_def)
  have below: "(exp (0.5 * (1000 * 10) / 1000000) - 1) * 100 < (2 :: real)"
    using exp_bound[of "0.005::real"] by (simp add: power2_eq_square)
  show ?thesis using size impact differ capped below by blast
qed

text \<open>
  Claim C3, evaluated on the code. With \<open>posSpreadCap = 2\<close> and \<open>negSpreadCap = 25\<close>
  configured and an uncapped spread of 10 percent, the returned \<open>dynamicSpread\<close> is 0.1,
  above \<open>posSpreadCap / 100\<close>: the positive limit is taken from the field
  \<open>negSpreadCap\<close>. With \<open>pnlNegSpreadCap = 2\<close>, \<open>pnlPosSpreadCap = 5\<close> and an
  uncapped PnL spread of -4 percent, the returned \<open>pnlDynamicSpread\<close> is -0.04, below
  \<open>- pnlNegSpreadCap / 100\<close>.
\<close>

theorem dynamicSpread_limits_from_swapped_fields:
  "storagePairParams pairInfo_caps =
     Some \<lparr> pnlPriceImpactMultiplier = Num 1.2, pnlSkewImpactMultiplier = Num 1.2,
            pnlPosSpreadCap = Num 5, pnlNegSpreadCap = Num 2,
            negSpreadCap = Num 25, posSpreadCap = Num 2 \<rparr> \<and>
   dynamicSpread (calculateDynamicSpread (spreadParams position_10x pairInfo_caps)) = Num 0.1 \<and>
   \<not> (0.1 :: real) \<le> 2 / 100 \<and>
   pnlDynamicSpread (calculateDynamicSpread (spreadParams position_10x pairInfo_caps)) =
     Num (- 0.04) \<and>
   \<not> - (2 / 100) \<le> (- 0.04 :: real)"
  by (simp add: calculateDynamicSpread_def Let_def spreadParams_def position_10x_def
        pairInfo_caps_def getPriceImpactSpread_def getSkewImpactSpread_def bn_times_def bn_div_def
        bn_plus_def bn_negated_def bn_isGreaterThan_def bn_isLessThan_def round_half_up_def
        DECIMAL_PLACES_def)

lemma spread_calculateLiquidationDistance: "spread (calculateLiquidationDistance p) = None"
  by (simp add: calculateLiquidationDistance_def Let_def)

text \<open>
  Claim C5. A position without pair information gets exactly the result of
  \<^verbatim>\<open>calculateLiquidationDistance\<close>, with no spread field. A position whose pair
  information makes the computed \<open>dynamicSpread\<close> exactly 0 gets the result of
  \<^verbatim>\<open>calculateLiquidationDistance\<close> on the unmodified position, so the same liquidation
  price, distances, margin ratio and risk flags, with the spread field set to 0.
\<close>

theorem calculateLiquidationWithSpread_zero_spread:
  "(pairInfo p = None \<longrightarrow>
      calculateLiquidationWithSpread p = calculateLiquidationDistance p \<and>
      spread (calculateLiquidationWithSpread p) = None) \<and>
   (pairInfo p = Some info \<and>
      dynamicSpread (calculateDynamicSpread (spreadParams p info)) = Num 0 \<longrightarrow>
      calculateLiquidationWithSpread p =
        (calculateLiquidationDistance p) \<lparr> spread := Some (Num 0) \<rparr>)"
  by (auto simp: calculateLiquidationWithSpread_def Let_def num_mul_one num_sub_def
        calculateLiquidationDistance_def)

theorem calculateLiquidationWithSpread_zero_spread_witness:
  "pairInfo position_10x = None \<and>
   calculateLiquidationWithSpread position_10x = calculateLiquidationDistance position_10x \<and>
   spread (calculateLiquidationWithSpread position_10x) = None \<and>
   pairInfo (position_10x \<lparr> pairInfo := Some pairInfo_zero \<rparr>) = Some pairInfo_zero \<and>
   dynamicSpread
     (calculateDynamicSpread
        (spreadParams (position_10x \<lparr> pairInfo := Some pairInfo_zero \<rparr>) pairInfo_zero)) = Num 0 \<and>
   calculateLiquidationWithSpread (position_10x \<lparr> pairInfo := Some pairInfo_zero \<rparr>) =
     (calculateLiquidationDistance (position_10x \<lparr> pairInfo := Some pairInfo_zero \<rparr>))
       \<lparr> spread := Some (Num 0) \<rparr>"
proof -
  have n: "pairInfo position_10x = None" by (simp add: position_10x_def)
  have z: "dynamicSpread
     (calculateDynamicSpread
        (spreadParams (position_10x \<lparr> pairInfo := Some pairInfo_zero \<rparr>) pairInfo_zero)) = Num 0"
    by (simp add: calculateDynamicSpread_def Let_def spreadParams_def position_10x_def
          pairInfo_zero_def getPriceImpactSpread_def getSkewImpactSpread_def bn_times_def
          bn_div_def bn_plus_def bn_negated_def bn_isGreaterThan_def bn_isLessThan_def
          round_half_up_def DECIMAL_PLACES_def)
  show ?thesis
    using n z calculateLiquidationWithSpread_zero_spread[of position_10x]
      calculateLiquidationWithSpread_zero_spread
        [of "position_10x \<lparr> pairInfo := Some pairInfo_zero \<rparr>" pairInfo_zero]
    by (simp add: spread_calculateLiquidationDistance)
qed

text \<open>
  Claim C6. In the result of \<^verbatim>\<open>calculateDynamicSpread\<close> the price-impact component is
  exactly 0 when the side-selected one-percent depth is 0, and the skew-impact component is
  exactly 0 when the open interest is missing, when the long open interest is 0, and so
  whenever the total of non-negative long and short open interests is 0: no division by
  zero takes place. Each of the four returned fields is the value computed for it, with
  exactly 0 in place of NaN, so no field is ever NaN: a NaN base spread gives
  \<open>dynamicSpread = 0\<close>, a NaN PnL base spread gives \<open>pnlDynamicSpread = 0\<close>, and a
  NaN position size gives 0 for both components. The function has no failing path: it
  returns a result for every input.
\<close>

theorem spread_components_zero_and_never_NaN:
  "(onePercentDepthParam params = Num 0 \<longrightarrow>
      priceImpactSpread (calculateDynamicSpread params) = Num 0) \<and>
   (openInterest (pairInfo_sp params) = None \<longrightarrow>
      skewImpactSpread (calculateDynamicSpread params) = Num 0) \<and>
   (openInterest (pairInfo_sp params) = Some oi \<and> long oi = Num 0 \<longrightarrow>
      skewImpactSpread (calculateDynamicSpread params) = Num 0) \<and>
   (openInterest (pairInfo_sp params) = Some oi \<and> long oi = Num a \<and> short oi = Num b \<and>
      0 \<le> a \<and> 0 \<le> b \<and> a + b = 0 \<longrightarrow>
      skewImpactSpread (calculateDynamicSpread params) = Num 0) \<and>
   calculateDynamicSpread params =
     (let v = spreadBeforeNormalization params
      in \<lparr> priceImpactSpread =
             (if isNaN (priceImpactSpread v) then Num 0 else priceImpactSpread v),
           skewImpactSpread =
             (if isNaN (skewImpactSpread v) then Num 0 else skewImpactSpread v),
           dynamicSpread = (if isNaN (dynamicSpread v) then Num 0 else dynamicSpread v),
           pnlDynamicSpread =
             (if isNaN (pnlDynamicSpread v) then Num 0 else pnlDynamicSpread v) \<rparr>) \<and>
   (spreadP (pairInfo_sp params) = NaN \<longrightarrow>
      dynamicSpread (calculateDynamicSpread params) = Num 0) \<and>
   (pnlSpreadP (pairInfo_sp params) = Some NaN \<longrightarrow>
      pnlDynamicSpread (calculateDynamicSpread params) = Num 0) \<and>
   (positionSize params = NaN \<longrightarrow>
      priceImpactSpread (calculateDynamicSpread params) = Num 0 \<and>
      skewImpactSpread (calculateDynamicSpread params) = Num 0) \<and>
   \<not> isNaN (priceImpactSpread (calculateDynamicSpread params)) \<and>
   \<not> isNaN (skewImpactSpread (calculateDynamicSpread params)) \<and>
   \<not> isNaN (dynamicSpread (calculateDynamicSpread params)) \<and>
   \<not> isNaN (pnlDynamicSpread (calculateDynamicSpread params))"
proof (intro conjI impI)
  assume "onePercentDepthParam params = Num 0"
  then show "priceImpactSpread (calculateDynamicSpread params) = Num 0"
    by (auto simp: priceImpactSpread_calc getPriceImpactSpread_def onePercentDepthParam_def
          Let_def bn_times_def split: if_splits option.splits)
next
  assume "openInterest (pairInfo_sp params) = None"
  then show "skewImpactSpread (calculateDynamicSpread params) = Num 0"
    by (simp add: skewImpactSpread_calc getSkewImpactSpread_def Let_def)
next
  assume "openInterest (pairInfo_sp params) = Some oi \<and> long oi = Num 0"
  then show "skewImpactSpread (calculateDynamicSpread params) = Num 0"
    by (simp add: skewImpactSpread_calc getSkewImpactSpread_def Let_def bn_times_def)
next
  assume h: "openInterest (pairInfo_sp params) = Some oi \<and> long oi = Num a \<and> short oi = Num b \<and>
      0 \<le> a \<and> 0 \<le> b \<and> a + b = 0"
  then have "a = 0" by linarith
  then show "skewImpactSpread (calculateDynamicSpread params) = Num 0"
    using h by (simp add: skewImpactSpread_calc getSkewImpactSpread_def Let_def bn_times_def)
next
  show "calculateDynamicSpread params =
     (let v = spreadBeforeNormalization params
      in \<lparr> priceImpactSpread =
             (if isNaN (priceImpactSpread v) then Num 0 else priceImpactSpread v),
           skewImpactSpread =
             (if isNaN (skewImpactSpread v) then Num 0 else skewImpactSpread v),
           dynamicSpread = (if isNaN (dynamicSpread v) then Num 0 else dynamicSpread v),
           pnlDynamicSpread =
             (if isNaN (pnlDynamicSpread v) then Num 0 else pnlDynamicSpread v) \<rparr>)"
    by (rule calculateDynamicSpread_normalizes)
next
  assume "spreadP (pairInfo_sp params) = NaN"
  then have "isNaN (dynamicSpread (spreadBeforeNormalization params))"
    by (rule dynamicSpread_NaN_base)
  then show "dynamicSpread (calculateDynamicSpread params) = Num 0"
    by (simp add: calculateDynamicSpread_normalizes Let_def)
next
  assume "pnlSpreadP (pairInfo_sp params) = Some NaN"
  then have "isNaN (pnlDynamicSpread (spreadBeforeNormalization params))"
    by (rule pnlDynamicSpread_NaN_base)
  then show "pnlDynamicSpread (calculateDynamicSpread params) = Num 0"
    by (simp add: calculateDynamicSpread_normalizes Let_def)
next
  assume "positionSize params = NaN"
  then show "priceImpactSpread (calculateDynamicSpread params) = Num 0"
    by (simp add: priceImpactSpread_calc getPriceImpactSpread_def Let_def bn_times_def
          bn_div_def num_sub_def num_mul_NaN_right)
next
  assume n: "positionSize params = NaN"
  show "skewImpactSpread (calculateDynamicSpread params) = Num 0"
  proof (cases "openInterest (pairInfo_sp params)")
    case None
    then show ?thesis by (simp add: skewImpactSpread_calc getSkewImpactSpread_def Let_def)
  next
    case (Some oi')
    then show ?thesis
      using n
      by (simp add: skewImpactSpread_calc getSkewImpactSpread_def Let_def bn_times_def
            bn_div_def bn_plus_def bn_minus_def num_sub_def num_mul_NaN_right
            num_add_NaN_right)
  qed
next
  show "\<not> isNaN (priceImpactSpread (calculateDynamicSpread params))"
    by (simp add: priceImpactSpread_calc Let_def)
  show "\<not> isNaN (skewImpactSpread (calculateDynamicSpread params))"
    by (simp add: skewImpactSpread_calc Let_def)
  show "\<not> isNaN (dynamicSpread (calculateDynamicSpread params))"
    using dynamicSpread_calc[of params] by (auto simp: capSpread_not_NaN)
  show "\<not> isNaN (pnlDynamicSpread (calculateDynamicSpread params))"
    using pnlDynamicSpread_calc[of params] by (auto simp: capSpread_not_NaN)
qed

theorem spread_components_zero_and_never_NaN_witness:
  "onePercentDepthParam (spreadParams position_10x pairInfo_degenerate) = Num 0 \<and>
   openInterest (pairInfo_sp (spreadParams position_10x pairInfo_degenerate)) =
     Some \<lparr> long = Num 0, short = Num 0 \<rparr> \<and>
   long \<lparr> long = Num 0, short = Num 0 \<rparr> = Num 0 \<and>
   short \<lparr> long = Num 0, short = Num 0 \<rparr> = Num 0 \<and>
   (0::real) \<le> 0 \<and> (0::real) + 0 = 0 \<and>
   openInterest (pairInfo_sp (spreadParams position_10x pairInfo_zero)) = None \<and>
   spreadP (pairInfo_sp (spreadParams position_10x pairInfo_degenerate)) = NaN \<and>
   pnlSpreadP (pairInfo_sp (spreadParams position_10x pairInfo_degenerate)) = Some NaN \<and>
   positionSize (spreadParams (position_10x \<lparr> collateral := NaN \<rparr>) pairInfo_depth) = NaN \<and>
   isNaN (priceImpactSpread
            (spreadBeforeNormalization
               (spreadParams (position_10x \<lparr> collateral := NaN \<rparr>) pairInfo_depth))) \<and>
   calculateDynamicSpread (spreadParams position_10x pairInfo_degenerate) =
     \<lparr> priceImpactSpread = Num 0, skewImpactSpread = Num 0, dynamicSpread = Num 0,
       pnlDynamicSpread = Num 0 \<rparr> \<and>
   skewImpactSpread (calculateDynamicSpread (spreadParams position_10x pairInfo_zero)) = Num 0 \<and>
   priceImpactSpread
     (calculateDynamicSpread
        (spreadParams (position_10x \<lparr> collateral := NaN \<rparr>) pairInfo_depth)) = Num 0 \<and>
   skewImpactSpread
     (calculateDynamicSpread
        (spreadParams (position_10x \<lparr> collateral := NaN \<rparr>) pairInfo_depth)) = Num 0"
proof -
  let ?d = "spreadParams position_10x pairInfo_degenerate"
  let ?z = "spreadParams position_10x pairInfo_zero"
  let ?n = "spreadParams (position_10x \<lparr> collateral := NaN \<rparr>) pairInfo_depth"
  have hyps:
    "onePercentDepthParam ?d = Num 0"
    "openInterest (pairInfo_sp ?d) = Some \<lparr> long = Num 0, short = Num 0 \<rparr>"
    "openInterest (pairInfo_sp ?z) = None"
    "spreadP (pairInfo_sp ?d) = NaN"
    "pnlSpreadP (pairInfo_sp ?d) = Some NaN"
    "positionSize ?n = NaN"
    by (simp_all add: spreadParams_def position_10x_def pairInfo_degenerate_def
          pairInfo_zero_def onePercentDepthParam_def)
  have raw: "isNaN (priceImpactSpread (spreadBeforeNormalization ?n))"
    by (simp add: spreadBeforeNormalization_def Let_def spreadParams_def position_10x_def
          pairInfo_depth_def getPriceImpactSpread_def bn_times_def bn_div_def num_sub_def)
  have oi: "long \<lparr> long = Num 0, short = Num 0 \<rparr> = Num 0"
    "short \<lparr> long = Num 0, short = Num 0 \<rparr> = Num 0"
    by simp_all
  note d = spread_components_zero_and_never_NaN
             [of ?d "\<lparr> long = Num 0, short = Num 0 \<rparr>" 0 0]
  note z = spread_components_zero_and_never_NaN
             [of ?z "\<lparr> long = Num 0, short = Num 0 \<rparr>" 0 0]
  note n = spread_components_zero_and_never_NaN
             [of ?n "\<lparr> long = Num 0, short = Num 0 \<rparr>" 0 0]
  have d1: "priceImpactSpread (calculateDynamicSpread ?d) = Num 0"
    using d hyps(1) by blast
  have d2: "skewImpactSpread (calculateDynamicSpread ?d) = Num 0"
    using d hyps(2) oi(1) by blast
  have d3: "dynamicSpread (calculateDynamicSpread ?d) = Num 0"
    using d hyps(4) by blast
  have d4: "pnlDynamicSpread (calculateDynamicSpread ?d) = Num 0"
    using d hyps(5) by blast
  have "calculateDynamicSpread ?d =
          \<lparr> priceImpactSpread = priceImpactSpread (calculateDynamicSpread ?d),
            skewImpactSpread = skewImpactSpread (calculateDynamicSpread ?d),
            dynamicSpread = dynamicSpread (calculateDynamicSpread ?d),
            pnlDynamicSpread = pnlDynamicSpread (calculateDynamicSpread ?d) \<rparr>"
    by simp
  then have whole: "calculateDynamicSpread ?d =
          \<lparr> priceImpactSpread = Num 0, skewImpactSpread = Num 0, dynamicSpread = Num 0,
            pnlDynamicSpread = Num 0 \<rparr>"
    by (simp only: d1 d2 d3 d4)
  have z2: "skewImpactSpread (calculateDynamicSpread ?z) = Num 0"
    using z hyps(3) by blast
  have n1: "priceImpactSpread (calculateDynamicSpread ?n) = Num 0"
    and n2: "skewImpactSpread (calculateDynamicSpread ?n) = Num 0"
    using n hyps(6) by blast+
  show ?thesis
    using hyps oi raw whole z2 n1 n2 by (intro conjI) simp_all
qed

text \<open>
  Claim C10. When the pair information has no \<^verbatim>\<open>storagePairParams\<close>, the returned
  \<open>dynamicSpread\<close> is a finite number in \<open>[-0.25, 0.02]\<close> and the returned
  \<open>pnlDynamicSpread\<close> a finite number in \<open>[-0.02, 0.05]\<close>, for every input.
\<close>

theorem default_caps_range:
  assumes "storagePairParams (pairInfo_sp params) = None"
  shows "\<exists>x y. dynamicSpread (calculateDynamicSpread params) = Num x \<and>
                 - 0.25 \<le> x \<and> x \<le> 0.02 \<and>
                 pnlDynamicSpread (calculateDynamicSpread params) = Num y \<and>
                 - 0.02 \<le> y \<and> y \<le> 0.05"
proof -
  obtain s where s: "dynamicSpread (calculateDynamicSpread params) = capSpread s (Num 2) (Num 25)"
    using dynamicSpread_calc[of params] assms by auto
  obtain t where t: "pnlDynamicSpread (calculateDynamicSpread params) = capSpread t (Num 5) (Num 2)"
    using pnlDynamicSpread_calc[of params] assms by auto
  obtain x where x: "capSpread s (Num 2) (Num 25) = Num x" "- capValue 25 \<le> x" "x \<le> capValue 2"
    using capSpread_range[of 2 25 s] by auto
  obtain y where y: "capSpread t (Num 5) (Num 2) = Num y" "- capValue 2 \<le> y" "y \<le> capValue 5"
    using capSpread_range[of 5 2 t] by auto
  show ?thesis using s t x y by (simp add: capValue_defaults)
qed

theorem default_caps_range_witness:
  "storagePairParams (pairInfo_sp (spreadParams position_10x pairInfo_depth)) = None \<and>
   (\<exists>x y. dynamicSpread (calculateDynamicSpread (spreadParams position_10x pairInfo_depth)) = Num x \<and>
           - 0.25 \<le> x \<and> x \<le> 0.02 \<and>
           pnlDynamicSpread (calculateDynamicSpread (spreadParams position_10x pairInfo_depth)) =
             Num y \<and>
           - 0.02 \<le> y \<and> y \<le> 0.05)"
  using default_caps_range[of "spreadParams position_10x pairInfo_depth"]
  by (simp add: spreadParams_def pairInfo_depth_def)

end
